theory Spec2Isabelle
  imports Main
begin

section \<open>JavaScript string primitives used by the plugin\<close>

text \<open>
  Strings are lists of characters. A character stands for one code unit; only code
  units below 256 are represented, which covers every character the identifier syntax
  gives a meaning to (the colon, the decimal digits, the sign and ASCII white space).
\<close>

text \<open>\<^verbatim>\<open>s.split(c)\<close> for a one-character separator: never returns an empty array.\<close>

fun split :: "char \<Rightarrow> string \<Rightarrow> string list" where
  "split sep [] = [[]]"
| "split sep (c # cs) =
     (if c = sep then [] # split sep cs
      else (case split sep cs of
              [] \<Rightarrow> [[c]]
            | p # ps \<Rightarrow> (c # p) # ps))"

text \<open>\<^verbatim>\<open>parts.join(c)\<close> for a one-character separator.\<close>

fun join :: "char \<Rightarrow> string list \<Rightarrow> string" where
  "join sep [] = []"
| "join sep [p] = p"
| "join sep (p # q # ps) = p @ sep # join sep (q # ps)"

text \<open>\<^verbatim>\<open>s.startsWith(p)\<close>, \<^verbatim>\<open>s.includes(p)\<close> and the test of a fixed suffix.\<close>

fun startsWith :: "string \<Rightarrow> string \<Rightarrow> bool" where
  "startsWith s [] = True"
| "startsWith [] (p # ps) = False"
| "startsWith (c # cs) (p # ps) = (c = p \<and> startsWith cs ps)"

fun includes_str :: "string \<Rightarrow> string \<Rightarrow> bool" where
  "includes_str [] sub = (sub = [])"
| "includes_str (c # cs) sub = (startsWith (c # cs) sub \<or> includes_str cs sub)"

definition endsWith :: "string \<Rightarrow> string \<Rightarrow> bool" where
  "endsWith s p = startsWith (rev s) (rev p)"

text \<open>
  Decimal rendering of a non-negative integer, as a template literal renders a line or
  column number.
\<close>

definition digit_char :: "nat \<Rightarrow> char" where
  "digit_char d = char_of (d + 48)"

fun num_to_string :: "nat \<Rightarrow> string" where
  "num_to_string n =
     (if n < 10 then [digit_char n]
      else num_to_string (n div 10) @ [digit_char (n mod 10)])"

declare num_to_string.simps [simp del]

text \<open>
  \<^verbatim>\<open>parseInt(s, 10)\<close>: leading white space is skipped, one sign is accepted, then the
  longest run of decimal digits is read and whatever follows is ignored. \<open>None\<close> is
  \<^verbatim>\<open>NaN\<close>. The result is an unbounded integer; the rounding of very long digit runs
  to a double is not represented.
\<close>

definition is_digit :: "char \<Rightarrow> bool" where
  "is_digit c = (48 \<le> (of_char c :: nat) \<and> (of_char c :: nat) \<le> 57)"

definition digit_val :: "char \<Rightarrow> nat" where
  "digit_val c = of_char c - 48"

definition is_space :: "char \<Rightarrow> bool" where
  "is_space c = ((of_char c :: nat) \<in> {9, 10, 11, 12, 13, 32, 160})"

definition digits_value :: "string \<Rightarrow> nat" where
  "digits_value ds = foldl (\<lambda>acc c. 10 * acc + digit_val c) 0 ds"

definition read_digits :: "string \<Rightarrow> nat option" where
  "read_digits s =
     (let ds = takeWhile is_digit s
      in if ds = [] then None else Some (digits_value ds))"

definition parseInt :: "string \<Rightarrow> int option" where
  "parseInt s =
     (case dropWhile is_space s of
        [] \<Rightarrow> None
      | c # cs \<Rightarrow>
          if c = CHR ''-'' then map_option (\<lambda>n. - int n) (read_digits cs)
          else if c = CHR ''+'' then map_option int (read_digits cs)
          else map_option int (read_digits (c # cs)))"

section \<open>The location-identifier codec\<close>

record edit_id =
  filePath :: string
  line :: int
  column :: int

text \<open>The template literal \<^verbatim>\<open>`${webRelativeFilePath}:${line}:${column}`\<close> of the transform.\<close>

definition encode :: "string \<Rightarrow> nat \<Rightarrow> nat \<Rightarrow> string" where
  "encode p l c = p @ CHR '':'' # num_to_string l @ CHR '':'' # num_to_string c"

text \<open>
  \<^verbatim>\<open>parseEditId\<close> of the plugin: the last two parts are popped as column and line and
  the rest is joined again. \<open>None\<close> is the \<^verbatim>\<open>null\<close> result.
\<close>

definition parseEditId :: "string \<Rightarrow> edit_id option" where
  "parseEditId editId =
     (let parts = split CHR '':'' editId
      in if length parts < 3 then None
         else
           let columnStr = last parts;
               parts1 = butlast parts;
               lineStr = last parts1;
               parts2 = butlast parts1;
               fp = join CHR '':'' parts2
           in if fp = [] then None
              else (case (parseInt lineStr, parseInt columnStr) of
                      (Some l, Some c) \<Rightarrow> Some \<lparr>filePath = fp, line = l, column = c\<rparr>
                    | _ \<Rightarrow> None))"

text \<open>
  \<^verbatim>\<open>parseEditId\<close> of the backend draft (\<^verbatim>\<open>poc-backend/server.js\<close>): the first three parts
  are taken by destructuring, nothing is checked, and a missing part reads as
  \<^verbatim>\<open>parseInt(undefined)\<close>, which is \<^verbatim>\<open>NaN\<close>.
\<close>

record backend_edit_id =
  b_filePath :: string
  b_line :: "int option"
  b_column :: "int option"

definition nth_part :: "string list \<Rightarrow> nat \<Rightarrow> string option" where
  "nth_part parts i = (if i < length parts then Some (parts ! i) else None)"

definition backend_parseEditId :: "string \<Rightarrow> backend_edit_id" where
  "backend_parseEditId editId =
     (let parts = split CHR '':'' editId
      in \<lparr>b_filePath = (case nth_part parts 0 of Some p \<Rightarrow> p | None \<Rightarrow> []),
          b_line = (case nth_part parts 1 of Some s \<Rightarrow> parseInt s | None \<Rightarrow> None),
          b_column = (case nth_part parts 2 of Some s \<Rightarrow> parseInt s | None \<Rightarrow> None)\<rparr>)"

section \<open>The syntax tree\<close>

text \<open>
  The part of the Babel tree the plugin looks at. \<open>JSXElement l attrs kids\<close> is an element
  whose \<^verbatim>\<open>openingElement\<close> has \<^verbatim>\<open>loc\<close> \<open>l\<close> (its start position; \<open>None\<close> when the
  node has no \<^verbatim>\<open>loc\<close>) and \<^verbatim>\<open>attributes\<close> \<open>attrs\<close>, and whose \<^verbatim>\<open>children\<close> are \<open>kids\<close>.
  An opening element occurs only as the \<^verbatim>\<open>openingElement\<close> of an element, so the parent
  of an opening element is always a \<^verbatim>\<open>JSXElement\<close> with a \<^verbatim>\<open>children\<close> array.
  The name and the type arguments of an opening element hold no element and are left
  out. \<open>Other ns\<close> is any other kind of node with its sub-nodes in visiting order.
\<close>

record position =
  start_line :: nat
  start_column :: nat

datatype attr_name = JSXIdentifier string | JSXNamespacedName string string

datatype node =
    JSXText string
  | StringLiteral string
  | JSXElement "position option" "attr list" "node list"
  | Other "node list"
and attr =
    JSXAttribute attr_name "node option"
  | JSXSpreadAttribute node

text \<open>\<^verbatim>\<open>t.isJSXText(child)\<close>.\<close>

fun isJSXText :: "node \<Rightarrow> bool" where
  "isJSXText (JSXText v) = True"
| "isJSXText n = False"

section \<open>The stamping pass\<close>

text \<open>\<^verbatim>\<open>t.isJSXAttribute(attr) && attr.name.name === 'data-edit-id'\<close>.\<close>

fun is_edit_id_attr :: "attr \<Rightarrow> bool" where
  "is_edit_id_attr (JSXAttribute (JSXIdentifier n) v) = (n = ''data-edit-id'')"
| "is_edit_id_attr a = False"

definition alreadyHasId :: "attr list \<Rightarrow> bool" where
  "alreadyHasId attrs = list_ex is_edit_id_attr attrs"

definition idAttribute :: "string \<Rightarrow> attr" where
  "idAttribute editId = JSXAttribute (JSXIdentifier ''data-edit-id'') (Some (StringLiteral editId))"

text \<open>The identifier of an opening element at position \<open>p\<close>: the column is shifted by one.\<close>

definition editId_at :: "string \<Rightarrow> position \<Rightarrow> string" where
  "editId_at webRelativeFilePath p =
     encode webRelativeFilePath (start_line p) (start_column p + 1)"

text \<open>
  What \<^verbatim>\<open>enter\<close> does to the attributes of an opening element: nothing without a
  \<^verbatim>\<open>loc\<close> or when the attribute is there, else the attribute is pushed at the end.
  The flag says whether \<^verbatim>\<open>attributesAdded\<close> is incremented.
\<close>

definition needs_id :: "position option \<Rightarrow> attr list \<Rightarrow> bool" where
  "needs_id l attrs = (l \<noteq> None \<and> \<not> alreadyHasId attrs)"

definition pushed_attrs :: "string \<Rightarrow> position option \<Rightarrow> attr list \<Rightarrow> attr list" where
  "pushed_attrs rel l attrs =
     (case l of
        None \<Rightarrow> []
      | Some p \<Rightarrow> if alreadyHasId attrs then [] else [idAttribute (editId_at rel p)])"

text \<open>
  The traversal with the \<^verbatim>\<open>enter\<close> visitor. The counter \<^verbatim>\<open>attributesAdded\<close> is passed
  along. The pushed attribute holds a string literal only, so visiting the attributes
  before or after the push gives the same tree.
\<close>

fun stamp_node :: "string \<Rightarrow> node \<Rightarrow> nat \<Rightarrow> node \<times> nat"
  and stamp_nodes :: "string \<Rightarrow> node list \<Rightarrow> nat \<Rightarrow> node list \<times> nat"
  and stamp_attr :: "string \<Rightarrow> attr \<Rightarrow> nat \<Rightarrow> attr \<times> nat"
  and stamp_attrs :: "string \<Rightarrow> attr list \<Rightarrow> nat \<Rightarrow> attr list \<times> nat"
where
  "stamp_node rel (JSXText v) k = (JSXText v, k)"
| "stamp_node rel (StringLiteral v) k = (StringLiteral v, k)"
| "stamp_node rel (JSXElement l attrs kids) k =
     (let k0 = (if needs_id l attrs then Suc k else k);
          (attrs1, k1) = stamp_attrs rel attrs k0;
          (kids1, k2) = stamp_nodes rel kids k1
      in (JSXElement l (attrs1 @ pushed_attrs rel l attrs) kids1, k2))"
| "stamp_node rel (Other ns) k =
     (let (ns1, k1) = stamp_nodes rel ns k in (Other ns1, k1))"
| "stamp_nodes rel [] k = ([], k)"
| "stamp_nodes rel (n # ns) k =
     (let (n1, k1) = stamp_node rel n k;
          (ns1, k2) = stamp_nodes rel ns k1
      in (n1 # ns1, k2))"
| "stamp_attr rel (JSXAttribute nm None) k = (JSXAttribute nm None, k)"
| "stamp_attr rel (JSXAttribute nm (Some v)) k =
     (let (v1, k1) = stamp_node rel v k in (JSXAttribute nm (Some v1), k1))"
| "stamp_attr rel (JSXSpreadAttribute e) k =
     (let (e1, k1) = stamp_node rel e k in (JSXSpreadAttribute e1, k1))"
| "stamp_attrs rel [] k = ([], k)"
| "stamp_attrs rel (a # as) k =
     (let (a1, k1) = stamp_attr rel a k;
          (as1, k2) = stamp_attrs rel as k1
      in (a1 # as1, k2))"

text \<open>
  The opening elements of a tree in the order the traversal enters them: an element's
  own opening tag, then what is nested in its attributes, then its children.
\<close>

fun opening_elements :: "node \<Rightarrow> (position option \<times> attr list) list"
  and opening_elements_list :: "node list \<Rightarrow> (position option \<times> attr list) list"
  and opening_elements_attr :: "attr \<Rightarrow> (position option \<times> attr list) list"
  and opening_elements_attrs :: "attr list \<Rightarrow> (position option \<times> attr list) list"
where
  "opening_elements (JSXText v) = []"
| "opening_elements (StringLiteral v) = []"
| "opening_elements (JSXElement l attrs kids) =
     (l, attrs) # opening_elements_attrs attrs @ opening_elements_list kids"
| "opening_elements (Other ns) = opening_elements_list ns"
| "opening_elements_list [] = []"
| "opening_elements_list (n # ns) = opening_elements n @ opening_elements_list ns"
| "opening_elements_attr (JSXAttribute nm None) = []"
| "opening_elements_attr (JSXAttribute nm (Some v)) = opening_elements v"
| "opening_elements_attr (JSXSpreadAttribute e) = opening_elements e"
| "opening_elements_attrs [] = []"
| "opening_elements_attrs (a # as) = opening_elements_attr a @ opening_elements_attrs as"

text \<open>The names of the attributes of an opening element; a spread attribute has none.\<close>

fun attr_key :: "attr \<Rightarrow> attr_name option" where
  "attr_key (JSXAttribute nm v) = Some nm"
| "attr_key (JSXSpreadAttribute e) = None"

section \<open>Locating the target of a patch\<close>

text \<open>
  The visitor's test on an opening element:
  \<^verbatim>\<open>node.loc && node.loc.start.line === targetLine && node.loc.start.column + 1 === targetColumn\<close>.
\<close>

definition at_target :: "int \<Rightarrow> int \<Rightarrow> position option \<Rightarrow> bool" where
  "at_target targetLine targetColumn l =
     (case l of
        None \<Rightarrow> False
      | Some p \<Rightarrow> int (start_line p) = targetLine \<and> int (start_column p) + 1 = targetColumn)"

text \<open>
  \<^verbatim>\<open>targetNodePath\<close>: the matched opening element, the \<^verbatim>\<open>children\<close> of its parent element,
  and the place of that parent in the tree, kept as the function that puts a list of
  children there. An assignment to a child of the parent is \<open>with_children\<close> applied to
  the changed list.
\<close>

record node_path =
  path_loc :: "position option"
  path_attrs :: "attr list"
  parent_children :: "node list"
  with_children :: "node list \<Rightarrow> node"

text \<open>
  The traversal with the \<^verbatim>\<open>JSXOpeningElement\<close> visitor and \<^verbatim>\<open>path.stop()\<close>: depth first,
  in the order of \<open>opening_elements\<close>, ending at the first match. The second argument
  is the place of the visited node in the whole tree.
\<close>

fun locate_node :: "int \<Rightarrow> int \<Rightarrow> (node \<Rightarrow> node) \<Rightarrow> node \<Rightarrow> node_path option"
  and locate_nodes :: "int \<Rightarrow> int \<Rightarrow> (node list \<Rightarrow> node) \<Rightarrow> node list \<Rightarrow> node_path option"
  and locate_attr :: "int \<Rightarrow> int \<Rightarrow> (attr \<Rightarrow> node) \<Rightarrow> attr \<Rightarrow> node_path option"
  and locate_attrs :: "int \<Rightarrow> int \<Rightarrow> (attr list \<Rightarrow> node) \<Rightarrow> attr list \<Rightarrow> node_path option"
where
  "locate_node tline tcol ctx (JSXText v) = None"
| "locate_node tline tcol ctx (StringLiteral v) = None"
| "locate_node tline tcol ctx (JSXElement l attrs kids) =
     (if at_target tline tcol l
      then Some \<lparr>path_loc = l, path_attrs = attrs, parent_children = kids,
                  with_children = (\<lambda>ks. ctx (JSXElement l attrs ks))\<rparr>
      else (case locate_attrs tline tcol (\<lambda>as. ctx (JSXElement l as kids)) attrs of
              Some r \<Rightarrow> Some r
            | None \<Rightarrow> locate_nodes tline tcol (\<lambda>ks. ctx (JSXElement l attrs ks)) kids))"
| "locate_node tline tcol ctx (Other ns) = locate_nodes tline tcol (\<lambda>ks. ctx (Other ks)) ns"
| "locate_nodes tline tcol ctx [] = None"
| "locate_nodes tline tcol ctx (n # ns) =
     (case locate_node tline tcol (\<lambda>m. ctx (m # ns)) n of
        Some r \<Rightarrow> Some r
      | None \<Rightarrow> locate_nodes tline tcol (\<lambda>ms. ctx (n # ms)) ns)"
| "locate_attr tline tcol ctx (JSXAttribute nm None) = None"
| "locate_attr tline tcol ctx (JSXAttribute nm (Some v)) =
     locate_node tline tcol (\<lambda>w. ctx (JSXAttribute nm (Some w))) v"
| "locate_attr tline tcol ctx (JSXSpreadAttribute e) =
     locate_node tline tcol (\<lambda>w. ctx (JSXSpreadAttribute w)) e"
| "locate_attrs tline tcol ctx [] = None"
| "locate_attrs tline tcol ctx (a # as) =
     (case locate_attr tline tcol (\<lambda>b. ctx (b # as)) a of
        Some r \<Rightarrow> Some r
      | None \<Rightarrow> locate_attrs tline tcol (\<lambda>bs. ctx (a # bs)) as)"

text \<open>
  The loop over \<^verbatim>\<open>parentElementNode.children\<close>: the first \<^verbatim>\<open>JSXText\<close> child gets the
  new value and the loop breaks. \<open>None\<close> is \<^verbatim>\<open>modified\<close> staying \<^verbatim>\<open>false\<close>.
\<close>

fun modify_children :: "string \<Rightarrow> node list \<Rightarrow> node list option" where
  "modify_children newValue [] = None"
| "modify_children newValue (child # rest) =
     (if isJSXText child then Some (JSXText newValue # rest)
      else map_option ((#) child) (modify_children newValue rest))"

section \<open>Storage, environment and the two entry points\<close>

text \<open>
  The file system: the content of every readable file, the paths a write fails for, and
  what a file holds after a write to it has failed. \<^verbatim>\<open>fs.writeFile\<close> opens the file
  with the flag \<^verbatim>\<open>w\<close>, which empties it, so a write that fails may leave the old
  content (the open was refused), nothing, or a part of the new content; which one is
  left open here.
\<close>

record storage =
  files :: "string \<rightharpoonup> string"
  unwritable :: "string set"
  failed_write_leaves :: "string \<Rightarrow> string \<Rightarrow> string option"

definition readFile :: "storage \<Rightarrow> string \<Rightarrow> string option" where
  "readFile st p = files st p"

datatype write_result = Written storage | WriteFailed storage

definition writeFile :: "storage \<Rightarrow> string \<Rightarrow> string \<Rightarrow> write_result" where
  "writeFile st p content =
     (if p \<in> unwritable st
      then WriteFailed (st\<lparr>files := (files st)(p := failed_write_leaves st p content)\<rparr>)
      else Written (st\<lparr>files := (files st)(p \<mapsto> content)\<rparr>))"

datatype fs_call = ReadFile string | WriteFile string string

text \<open>
  What the plugin takes from its platform and from Babel: the project root, Node's
  \<^verbatim>\<open>path.resolve\<close>, \<^verbatim>\<open>path.relative\<close> and \<^verbatim>\<open>path.sep\<close>, the parser (\<open>None\<close> when it throws)
  and the generator (\<open>None\<close> when it throws). The generator gets the source file name
  when source maps are asked for, the tree, and the original text.
\<close>

record generated =
  code :: string
  smap :: "string option"

record env =
  project_root :: string
  resolve :: "string \<Rightarrow> string \<Rightarrow> string"
  relative :: "string \<Rightarrow> string \<Rightarrow> string"
  path_sep :: char
  parse :: "string \<Rightarrow> node option"
  generate :: "string option \<Rightarrow> node \<Rightarrow> string \<Rightarrow> generated option"

text \<open>
  The \<^verbatim>\<open>transform\<close> hook. \<open>None\<close> is the \<^verbatim>\<open>null\<close> result: the file is left as it is.
\<close>

definition transform :: "env \<Rightarrow> string \<Rightarrow> string \<Rightarrow> generated option" where
  "transform env src file_id =
     (if \<not> (endsWith file_id ''.jsx'' \<or> endsWith file_id ''.tsx'')
         \<or> \<not> startsWith file_id (project_root env)
         \<or> includes_str file_id ''node_modules''
      then None
      else
        let relativeFilePath = relative env (project_root env) file_id;
            webRelativeFilePath = join CHR ''/'' (split (path_sep env) relativeFilePath)
        in (case parse env src of
              None \<Rightarrow> None
            | Some babelAst \<Rightarrow>
                let (stamped, attributesAdded) = stamp_node webRelativeFilePath babelAst 0
                in if attributesAdded > 0
                   then generate env (Some webRelativeFilePath) stamped src
                   else None))"

text \<open>The text the build pipeline goes on with: the input itself after a \<^verbatim>\<open>null\<close>.\<close>

definition stamped_content :: "env \<Rightarrow> string \<Rightarrow> string \<Rightarrow> string" where
  "stamped_content env src file_id =
     (case transform env src file_id of None \<Rightarrow> src | Some out \<Rightarrow> code out)"

text \<open>
  The body of a request to \<^verbatim>\<open>/api/apply-edit\<close> after \<^verbatim>\<open>JSON.parse\<close>: \<open>Unparsable\<close> when
  that throws, else the two fields, \<open>None\<close> for \<^verbatim>\<open>undefined\<close>. A field that is present is
  a string.
\<close>

datatype request_body = Unparsable | Payload "string option" "string option"

text \<open>A response: the status and the error message, or the body of a 200.\<close>

datatype response = Failure nat string | Success string string

definition missing_fields :: response where
  "missing_fields = Failure 400 ''Missing editId or newValue''"

definition invalid_editId :: response where
  "invalid_editId = Failure 400 ''Invalid editId format (filePath:line:column)''"

definition invalid_path :: response where
  "invalid_path = Failure 400 ''Invalid path''"

definition target_not_found :: response where
  "target_not_found =
     Failure 404 ''AST Modification Failed - Target node not found by line/column.''"

definition not_modified :: response where
  "not_modified =
     Failure 409
       ''AST Modification Failed - Target node found, but failed to modify text child.''"

definition internal_error :: response where
  "internal_error = Failure 500 ''Internal server error during edit application.''"

record result =
  response :: response
  store :: storage
  calls :: "fs_call list"

text \<open>The test on the decoded path and its resolution.\<close>

definition path_refused :: "env \<Rightarrow> string \<Rightarrow> string \<Rightarrow> bool" where
  "path_refused env fp absoluteFilePath =
     (includes_str fp ''..''
      \<or> \<not> startsWith absoluteFilePath (project_root env)
      \<or> includes_str absoluteFilePath ''node_modules'')"

text \<open>
  The end of the handler: the tree is serialised and the text is written over the file.
\<close>

definition write_back :: "env \<Rightarrow> storage \<Rightarrow> string \<Rightarrow> string \<Rightarrow> string \<Rightarrow> node \<Rightarrow> result" where
  "write_back env st fp absoluteFilePath originalContent ast =
     (case generate env None ast originalContent of
        None \<Rightarrow>
          \<lparr>response = internal_error, store = st, calls = [ReadFile absoluteFilePath]\<rparr>
      | Some output \<Rightarrow>
          (case writeFile st absoluteFilePath (code output) of
             WriteFailed st' \<Rightarrow>
               \<lparr>response = internal_error, store = st',
                calls = [ReadFile absoluteFilePath, WriteFile absoluteFilePath (code output)]\<rparr>
           | Written st' \<Rightarrow>
               \<lparr>response = Success fp (code output), store = st',
                calls = [ReadFile absoluteFilePath, WriteFile absoluteFilePath (code output)]\<rparr>))"

text \<open>
  The middle of the handler, from the parsed tree on: the target is located, the first
  text child of its parent is given the new value, and the tree goes to \<open>write_back\<close>.
\<close>

definition patch_tree ::
  "env \<Rightarrow> storage \<Rightarrow> edit_id \<Rightarrow> string \<Rightarrow> string \<Rightarrow> string \<Rightarrow> node \<Rightarrow> result" where
  "patch_tree env st parsedId absoluteFilePath originalContent newValue babelAst =
     (case locate_node (line parsedId) (column parsedId) (\<lambda>n. n) babelAst of
        None \<Rightarrow>
          \<lparr>response = target_not_found, store = st, calls = [ReadFile absoluteFilePath]\<rparr>
      | Some targetNodePath \<Rightarrow>
          (case modify_children newValue (parent_children targetNodePath) of
             None \<Rightarrow>
               \<lparr>response = not_modified, store = st, calls = [ReadFile absoluteFilePath]\<rparr>
           | Some kids \<Rightarrow>
               write_back env st (filePath parsedId) absoluteFilePath originalContent
                 (with_children targetNodePath kids)))"

text \<open>
  The handler of a POST to \<^verbatim>\<open>/api/apply-edit\<close>. Every exception ends in the
  \<^verbatim>\<open>catch\<close> block, which answers 500.
\<close>

definition apply_edit :: "env \<Rightarrow> storage \<Rightarrow> request_body \<Rightarrow> result" where
  "apply_edit env st body =
     (case body of
        Unparsable \<Rightarrow> \<lparr>response = internal_error, store = st, calls = []\<rparr>
      | Payload editId newValue \<Rightarrow>
          (case (editId, newValue) of
             (Some eid, Some v) \<Rightarrow>
               if eid = [] then \<lparr>response = missing_fields, store = st, calls = []\<rparr>
               else
                 (case parseEditId eid of
                    None \<Rightarrow> \<lparr>response = invalid_editId, store = st, calls = []\<rparr>
                  | Some parsedId \<Rightarrow>
                      let absoluteFilePath = resolve env (project_root env) (filePath parsedId)
                      in if path_refused env (filePath parsedId) absoluteFilePath
                         then \<lparr>response = invalid_path, store = st, calls = []\<rparr>
                         else
                           (case readFile st absoluteFilePath of
                              None \<Rightarrow>
                                \<lparr>response = internal_error, store = st,
                                 calls = [ReadFile absoluteFilePath]\<rparr>
                            | Some originalContent \<Rightarrow>
                                (case parse env originalContent of
                                   None \<Rightarrow>
                                     \<lparr>response = internal_error, store = st,
                                      calls = [ReadFile absoluteFilePath]\<rparr>
                                 | Some babelAst \<Rightarrow>
                                     patch_tree env st parsedId absoluteFilePath
                                       originalContent v babelAst)))
           | _ \<Rightarrow> \<lparr>response = missing_fields, store = st, calls = []\<rparr>))"

section \<open>Notions used to state the properties\<close>

text \<open>The opening element a path stands at, and the keys of an opening element.\<close>

definition tag_of :: "node_path \<Rightarrow> position option \<times> attr list" where
  "tag_of r = (path_loc r, path_attrs r)"

definition tag_keys ::
  "position option \<times> attr list \<Rightarrow> position option \<times> attr_name option list" where
  "tag_keys oe = (fst oe, map attr_key (snd oe))"

text \<open>The number of opening elements the stamping pass gives an identifier to.\<close>

definition fresh_count :: "(position option \<times> attr list) list \<Rightarrow> nat" where
  "fresh_count oes = length (filter (\<lambda>oe. needs_id (fst oe) (snd oe)) oes)"

text \<open>
  The kinds of failure of a patch request that come before the write, each with the
  conditions under which it occurs, in the order the handler meets them.
\<close>

datatype failure_kind =
    BodyNotJSON | MissingField | InvalidIdentifier | AccessDenied | UnreadableFile
  | ParseFailure | TargetNotFound | NotMutable | SerializeFailure

inductive fails_with :: "env \<Rightarrow> storage \<Rightarrow> request_body \<Rightarrow> failure_kind \<Rightarrow> bool"
  for env :: env and st :: storage
where
  body_not_json: "fails_with env st Unparsable BodyNotJSON"
| missing_field:
    "e = None \<or> e = Some [] \<or> nv = None \<Longrightarrow> fails_with env st (Payload e nv) MissingField"
| invalid_identifier:
    "eid \<noteq> [] \<Longrightarrow> parseEditId eid = None \<Longrightarrow>
       fails_with env st (Payload (Some eid) (Some v)) InvalidIdentifier"
| access_denied:
    "eid \<noteq> [] \<Longrightarrow> parseEditId eid = Some pid \<Longrightarrow>
     p = resolve env (project_root env) (filePath pid) \<Longrightarrow>
     path_refused env (filePath pid) p \<Longrightarrow>
       fails_with env st (Payload (Some eid) (Some v)) AccessDenied"
| unreadable_file:
    "eid \<noteq> [] \<Longrightarrow> parseEditId eid = Some pid \<Longrightarrow>
     p = resolve env (project_root env) (filePath pid) \<Longrightarrow>
     \<not> path_refused env (filePath pid) p \<Longrightarrow> readFile st p = None \<Longrightarrow>
       fails_with env st (Payload (Some eid) (Some v)) UnreadableFile"
| parse_failure:
    "eid \<noteq> [] \<Longrightarrow> parseEditId eid = Some pid \<Longrightarrow>
     p = resolve env (project_root env) (filePath pid) \<Longrightarrow>
     \<not> path_refused env (filePath pid) p \<Longrightarrow> readFile st p = Some content \<Longrightarrow>
     parse env content = None \<Longrightarrow>
       fails_with env st (Payload (Some eid) (Some v)) ParseFailure"
| target_missing:
    "eid \<noteq> [] \<Longrightarrow> parseEditId eid = Some pid \<Longrightarrow>
     p = resolve env (project_root env) (filePath pid) \<Longrightarrow>
     \<not> path_refused env (filePath pid) p \<Longrightarrow> readFile st p = Some content \<Longrightarrow>
     parse env content = Some ast \<Longrightarrow>
     locate_node (line pid) (column pid) (\<lambda>n. n) ast = None \<Longrightarrow>
       fails_with env st (Payload (Some eid) (Some v)) TargetNotFound"
| not_mutable:
    "eid \<noteq> [] \<Longrightarrow> parseEditId eid = Some pid \<Longrightarrow>
     p = resolve env (project_root env) (filePath pid) \<Longrightarrow>
     \<not> path_refused env (filePath pid) p \<Longrightarrow> readFile st p = Some content \<Longrightarrow>
     parse env content = Some ast \<Longrightarrow>
     locate_node (line pid) (column pid) (\<lambda>n. n) ast = Some path \<Longrightarrow>
     modify_children v (parent_children path) = None \<Longrightarrow>
       fails_with env st (Payload (Some eid) (Some v)) NotMutable"
| serialize_failure:
    "eid \<noteq> [] \<Longrightarrow> parseEditId eid = Some pid \<Longrightarrow>
     p = resolve env (project_root env) (filePath pid) \<Longrightarrow>
     \<not> path_refused env (filePath pid) p \<Longrightarrow> readFile st p = Some content \<Longrightarrow>
     parse env content = Some ast \<Longrightarrow>
     locate_node (line pid) (column pid) (\<lambda>n. n) ast = Some path \<Longrightarrow>
     modify_children v (parent_children path) = Some kids \<Longrightarrow>
     generate env None (with_children path kids) content = None \<Longrightarrow>
       fails_with env st (Payload (Some eid) (Some v)) SerializeFailure"

text \<open>The answer the handler gives to each kind.\<close>

fun answer_of :: "failure_kind \<Rightarrow> response" where
  "answer_of BodyNotJSON = internal_error"
| "answer_of MissingField = missing_fields"
| "answer_of InvalidIdentifier = invalid_editId"
| "answer_of AccessDenied = invalid_path"
| "answer_of UnreadableFile = internal_error"
| "answer_of ParseFailure = internal_error"
| "answer_of TargetNotFound = target_not_found"
| "answer_of NotMutable = not_modified"
| "answer_of SerializeFailure = internal_error"

definition generic_kinds :: "failure_kind set" where
  "generic_kinds = {BodyNotJSON, UnreadableFile, ParseFailure, SerializeFailure}"

text \<open>A numeric string: decimal digits and nothing else.\<close>

definition numeric_str :: "string \<Rightarrow> bool" where
  "numeric_str s = (s \<noteq> [] \<and> list_all is_digit s)"

text \<open>
  A path lies below a directory when the segments of the directory are the first
  segments of the path and the path has more of them.
\<close>

definition descendant_of :: "string \<Rightarrow> string \<Rightarrow> bool" where
  "descendant_of root p =
     (let rs = split CHR ''/'' root; ps = split CHR ''/'' p
      in length rs < length ps \<and> take (length rs) ps = rs)"

section \<open>A POSIX instance of the environment\<close>

text \<open>
  \<^verbatim>\<open>path.resolve(from, to)\<close> on POSIX for an absolute \<open>from\<close>: an absolute \<open>to\<close> stands
  for itself, the segments \<^verbatim>\<open>.\<close> and empty ones are dropped, \<^verbatim>\<open>..\<close> removes the segment
  before it.
\<close>

fun normalize_parts :: "string list \<Rightarrow> string list \<Rightarrow> string list" where
  "normalize_parts acc [] = acc"
| "normalize_parts acc (p # ps) =
     (if p = [] \<or> p = ''.'' then normalize_parts acc ps
      else if p = ''..'' then normalize_parts (butlast acc) ps
      else normalize_parts (acc @ [p]) ps)"

definition posix_resolve :: "string \<Rightarrow> string \<Rightarrow> string" where
  "posix_resolve from to =
     (let full = (if to = [] then from
                  else if startsWith to ''/'' then to
                  else from @ ''/'' @ to)
      in CHR ''/'' # join CHR ''/'' (normalize_parts [] (split CHR ''/'' full)))"

text \<open>\<^verbatim>\<open>path.relative(from, to)\<close> on POSIX for two absolute paths.\<close>

fun drop_common :: "string list \<Rightarrow> string list \<Rightarrow> string list \<times> string list" where
  "drop_common (a # as) (b # bs) = (if a = b then drop_common as bs else (a # as, b # bs))"
| "drop_common as bs = (as, bs)"

definition posix_relative :: "string \<Rightarrow> string \<Rightarrow> string" where
  "posix_relative from to =
     (let (fs, ts) = drop_common (normalize_parts [] (split CHR ''/'' from))
                       (normalize_parts [] (split CHR ''/'' to))
      in join CHR ''/'' (map (\<lambda>f. ''..'') fs @ ts))"

text \<open>
  A few source texts with the trees the parser gives for them, and the texts the
  generator gives for the trees the handler builds from them (an expression statement
  is printed with a semicolon at its end). They stand in for Babel where a property is
  run on a concrete request.
\<close>

definition at_pos :: "nat \<Rightarrow> nat \<Rightarrow> position option" where
  "at_pos l c = Some \<lparr>start_line = l, start_column = c\<rparr>"

definition hello_src :: string where
  "hello_src = ''<p>Hello</p>''"

definition hello_tree :: node where
  "hello_tree = Other [JSXElement (at_pos 1 0) [] [JSXText ''Hello'']]"

definition nested_src :: string where
  "nested_src = ''<div><b>x</b></div>''"

definition nested_tree :: node where
  "nested_tree =
     Other [JSXElement (at_pos 1 0) [] [JSXElement (at_pos 1 5) [] [JSXText ''x'']]]"

definition layout_src :: string where
  "layout_src = ''<div>'' @ [CHR 0x0A] @ ''  <b>x</b>'' @ [CHR 0x0A] @ ''</div>''"

definition layout_tree :: node where
  "layout_tree =
     Other [JSXElement (at_pos 1 0) []
              [JSXText (CHR 0x0A # ''  ''),
               JSXElement (at_pos 2 2) [] [JSXText ''x''],
               JSXText [CHR 0x0A]]]"

definition stamped_src :: string where
  "stamped_src =
     ''<p data-edit-id='' @ [CHR 0x22] @ ''a.tsx:1:1'' @ [CHR 0x22] @ ''>Hello</p>''"

definition stamped_tree :: node where
  "stamped_tree =
     Other [JSXElement (at_pos 1 0) [idAttribute ''a.tsx:1:1''] [JSXText ''Hello'']]"

definition demo_parse :: "string \<Rightarrow> node option" where
  "demo_parse src =
     map_of [(hello_src, hello_tree), (nested_src, nested_tree),
             (layout_src, layout_tree), (stamped_src, stamped_tree)] src"

definition demo_generate :: "string option \<Rightarrow> node \<Rightarrow> string \<Rightarrow> generated option" where
  "demo_generate sourceFileName ast src =
     map_option (\<lambda>c. \<lparr>code = c, smap = map_option (\<lambda>n. ''{}'') sourceFileName\<rparr>)
       (map_of
          [(Other [JSXElement (at_pos 1 0) [] [JSXText ''Hi'']], ''<p>Hi</p>;''),
           (Other [JSXElement (at_pos 1 0) [] [JSXText []]], ''<p></p>;''),
           (Other [JSXElement (at_pos 1 0) []
                     [JSXText ''Hi'', JSXElement (at_pos 2 2) [] [JSXText ''x''],
                      JSXText [CHR 0x0A]]],
            ''<div>Hi<b>x</b>'' @ [CHR 0x0A] @ ''</div>;''),
           (stamped_tree, stamped_src @ '';'')]
          ast)"

definition demo_env :: env where
  "demo_env =
     \<lparr>project_root = ''/proj'', resolve = posix_resolve, relative = posix_relative,
      path_sep = CHR ''/'', parse = demo_parse, generate = demo_generate\<rparr>"

definition demo_store :: storage where
  "demo_store =
     \<lparr>files = map_of [(''/proj/a.tsx'', hello_src), (''/proj/nested.tsx'', nested_src),
                       (''/proj/layout.tsx'', layout_src), (''/proj/stamped.tsx'', stamped_src),
                       (''/proj/broken.tsx'', ''<p>''), (''/proj-evil/x.tsx'', hello_src)],
      unwritable = {''/proj/layout.tsx''},
      failed_write_leaves = (\<lambda>p content. Some [])\<rparr>"

section \<open>Properties of the string primitives\<close>

lemma split_not_Nil: "split sep s \<noteq> []"
  by (induction s) (auto split: list.splits)

lemma split_no_sep: "sep \<notin> set s \<Longrightarrow> split sep s = [s]"
  by (induction s) auto

lemma split_append_sep: "split sep (a @ sep # b) = split sep a @ split sep b"
  by (induction a) (auto split: list.splits simp: split_not_Nil)

lemma join_split: "join sep (split sep s) = s"
proof (induction s)
  case Nil
  show ?case by simp
next
  case (Cons c cs)
  obtain p ps where sp: "split sep cs = p # ps"
    using split_not_Nil [of sep cs] by (cases "split sep cs") auto
  show ?case
  proof (cases "c = sep")
    case True
    with Cons sp show ?thesis by simp
  next
    case False
    with Cons sp show ?thesis by (cases ps) auto
  qed
qed

lemma is_digit_digit_char: "d < 10 \<Longrightarrow> is_digit (digit_char d)"
  by (simp add: is_digit_def digit_char_def)

lemma digit_val_digit_char: "d < 10 \<Longrightarrow> digit_val (digit_char d) = d"
  by (simp add: digit_val_def digit_char_def)

lemma digit_not_space: "is_digit c \<Longrightarrow> \<not> is_space c"
  by (auto simp: is_digit_def is_space_def)

lemma digit_not_sign:
  "is_digit c \<Longrightarrow> c \<noteq> CHR ''-'' \<and> c \<noteq> CHR ''+'' \<and> c \<noteq> CHR '':''"
  by (auto simp: is_digit_def)

lemma num_to_string_digits: "\<forall>c \<in> set (num_to_string n). is_digit c"
  by (induction n rule: num_to_string.induct)
     (subst num_to_string.simps, auto simp: is_digit_digit_char)

lemma num_to_string_not_Nil: "num_to_string n \<noteq> []"
  by (subst num_to_string.simps) simp

lemma digits_value_snoc: "digits_value (ds @ [c]) = 10 * digits_value ds + digit_val c"
  by (simp add: digits_value_def)

lemma digits_value_num_to_string: "digits_value (num_to_string n) = n"
proof (induction n rule: num_to_string.induct)
  case (1 n)
  show ?case
  proof (cases "n < 10")
    case True
    then show ?thesis
      by (subst num_to_string.simps) (simp add: digits_value_def digit_val_digit_char)
  next
    case False
    with 1 show ?thesis
      by (subst num_to_string.simps) (simp add: digits_value_snoc digit_val_digit_char)
  qed
qed

lemma parseInt_num_to_string: "parseInt (num_to_string n) = Some (int n)"
proof -
  obtain c cs where s: "num_to_string n = c # cs"
    using num_to_string_not_Nil [of n] by (cases "num_to_string n") auto
  have all: "\<forall>x \<in> set (c # cs). is_digit x"
    using num_to_string_digits [of n] s by simp
  then have c: "is_digit c" by simp
  have tw: "takeWhile is_digit (c # cs) = c # cs"
    using all by (simp only: takeWhile_eq_all_conv)
  have "read_digits (c # cs) = Some n"
    unfolding read_digits_def Let_def tw using digits_value_num_to_string [of n] s by simp
  then show ?thesis
    using c digit_not_space [OF c] digit_not_sign [OF c] s by (simp add: parseInt_def)
qed

lemma num_to_string_no_colon: "CHR '':'' \<notin> set (num_to_string n)"
  using num_to_string_digits [of n] digit_not_sign by blast

lemma split_encode:
  "split CHR '':'' (encode p l c) = split CHR '':'' p @ [num_to_string l, num_to_string c]"
  by (simp add: encode_def split_append_sep split_no_sep num_to_string_no_colon)

lemma read_digits_None: "read_digits s = None \<longleftrightarrow> (s = [] \<or> \<not> is_digit (hd s))"
  by (cases s) (auto simp: read_digits_def)

section \<open>Properties of the codec\<close>

text \<open>
  C2. A file path is a string that is not empty. For every file path \<open>p\<close>, colons in it
  or not, and all numbers \<open>l\<close> and \<open>c\<close>, decoding the identifier \<open>p:l:c\<close> gives back the
  path, the line and the column. The decoder splits at every colon, takes the last two
  parts as column and line and joins the others again.
\<close>

theorem parseEditId_encode:
  "p \<noteq> [] \<Longrightarrow>
     parseEditId (encode p l c) = Some \<lparr>filePath = p, line = int l, column = int c\<rparr>"
  by (simp add: parseEditId_def split_encode Let_def butlast_append join_split
      parseInt_num_to_string split_not_Nil)

theorem parseEditId_encode_witness:
  "parseEditId (encode ''src/a:b.tsx'' 3 5)
     = Some \<lparr>filePath = ''src/a:b.tsx'', line = 3, column = 5\<rparr>"
  using parseEditId_encode [of "''src/a:b.tsx''" 3 5] by simp

text \<open>
  The empty string is no file path: the decoder refuses its identifier \<open>:3:5\<close> by the
  guard on the path.
\<close>

lemma parseEditId_encode_empty_path:
  "encode [] 3 5 = '':3:5'' \<and> parseEditId (encode [] 3 5) = None"
  by code_simp

text \<open>
  The decoder of the backend draft takes the first three parts instead: a colon in the
  path moves every field.
\<close>

lemma backend_parseEditId_colon_path:
  "backend_parseEditId (encode ''src/a:b.tsx'' 3 5)
     = \<lparr>b_filePath = ''src/a'', b_line = None, b_column = Some 3\<rparr>"
  by code_simp

text \<open>
  C8, as the code has it. The decoder refuses an identifier exactly when it has fewer
  than three parts, or the parts before the last two join to the empty path, or
  \<^verbatim>\<open>parseInt\<close> fails on the line part or on the column part. \<^verbatim>\<open>parseInt\<close> fails exactly
  when the part, after its leading white space and one sign, does not begin with a
  decimal digit.
\<close>

theorem parseEditId_refuses:
  "(parseEditId s = None \<longleftrightarrow>
      length (split CHR '':'' s) < 3
      \<or> join CHR '':'' (butlast (butlast (split CHR '':'' s))) = []
      \<or> parseInt (last (butlast (split CHR '':'' s))) = None
      \<or> parseInt (last (split CHR '':'' s)) = None)
   \<and> (parseInt t = None \<longleftrightarrow>
        (case dropWhile is_space t of
           [] \<Rightarrow> True
         | d # ds \<Rightarrow>
             if d = CHR ''-'' \<or> d = CHR ''+'' then ds = [] \<or> \<not> is_digit (hd ds)
             else \<not> is_digit d))"
proof
  show "parseEditId s = None \<longleftrightarrow>
      length (split CHR '':'' s) < 3
      \<or> join CHR '':'' (butlast (butlast (split CHR '':'' s))) = []
      \<or> parseInt (last (butlast (split CHR '':'' s))) = None
      \<or> parseInt (last (split CHR '':'' s)) = None"
    by (auto simp: parseEditId_def Let_def split: option.splits)
next
  show "parseInt t = None \<longleftrightarrow>
        (case dropWhile is_space t of
           [] \<Rightarrow> True
         | d # ds \<Rightarrow>
             if d = CHR ''-'' \<or> d = CHR ''+'' then ds = [] \<or> \<not> is_digit (hd ds)
             else \<not> is_digit d)"
  proof (cases "dropWhile is_space t")
    case Nil
    show ?thesis unfolding parseInt_def Nil by simp
  next
    case (Cons d ds)
    show ?thesis unfolding parseInt_def Cons by (simp add: read_digits_None)
  qed
qed

theorem parseEditId_refuses_witness:
  "parseEditId ''a.tsx:x3:5'' = None \<and> parseInt ''x3'' = None"
proof -
  have parts: "split CHR '':'' ''a.tsx:x3:5'' = [''a.tsx'', ''x3'', ''5'']"
    by code_simp
  have nan: "parseInt ''x3'' = None"
    using parseEditId_refuses [of "[]" "''x3''"] by (simp add: is_space_def is_digit_def)
  have "parseEditId ''a.tsx:x3:5'' = None"
    using parseEditId_refuses [of "''a.tsx:x3:5''" "[]"] nan unfolding parts by simp
  with nan show ?thesis by simp
qed

text \<open>
  C8 as it is stated, that parts which are not numeric are refused, fails where a part
  begins with digits: \<open>3x\<close> and \<open>5y\<close> are read as 3 and 5.
\<close>

theorem parseEditId_accepts_digit_prefix:
  "\<not> numeric_str ''3x'' \<and> \<not> numeric_str ''5y''
   \<and> parseEditId ''a.tsx:3x:5y'' = Some \<lparr>filePath = ''a.tsx'', line = 3, column = 5\<rparr>"
  by code_simp

section \<open>Properties of the tree traversals\<close>

lemma find_append_case:
  "find P (xs @ ys) = (case find P xs of None \<Rightarrow> find P ys | Some x \<Rightarrow> Some x)"
  by (induction xs) auto

lemma locate_is_find:
  "map_option tag_of (locate_node tline tcol ctx n)
     = find (\<lambda>oe. at_target tline tcol (fst oe)) (opening_elements n)"
  "map_option tag_of (locate_nodes tline tcol ctxs ns)
     = find (\<lambda>oe. at_target tline tcol (fst oe)) (opening_elements_list ns)"
  "map_option tag_of (locate_attr tline tcol ctxa a)
     = find (\<lambda>oe. at_target tline tcol (fst oe)) (opening_elements_attr a)"
  "map_option tag_of (locate_attrs tline tcol ctxas as)
     = find (\<lambda>oe. at_target tline tcol (fst oe)) (opening_elements_attrs as)"
proof (induction tline tcol ctx n and tline tcol ctxs ns and tline tcol ctxa a
    and tline tcol ctxas as rule: locate_node_locate_nodes_locate_attr_locate_attrs.induct)
qed (auto simp: find_append_case tag_of_def split: option.splits)

lemma locate_None_iff:
  "locate_node tline tcol ctx n = None
     \<longleftrightarrow> (\<forall>oe \<in> set (opening_elements n). \<not> at_target tline tcol (fst oe))"
proof -
  have "locate_node tline tcol ctx n = None
      \<longleftrightarrow> map_option tag_of (locate_node tline tcol ctx n) = None"
    by simp
  also have "\<dots> \<longleftrightarrow> find (\<lambda>oe. at_target tline tcol (fst oe)) (opening_elements n) = None"
    by (simp only: locate_is_find)
  also have "\<dots> \<longleftrightarrow> (\<forall>oe \<in> set (opening_elements n). \<not> at_target tline tcol (fst oe))"
    by (simp only: find_None_iff) blast
  finally show ?thesis .
qed

text \<open>
  The place a path keeps is the place of the matched element: putting the children back
  gives the tree that was searched.
\<close>

lemma locate_context:
  "locate_node tline tcol ctx n = Some r \<Longrightarrow> with_children r (parent_children r) = ctx n"
  "locate_nodes tline tcol ctxs ns = Some r \<Longrightarrow> with_children r (parent_children r) = ctxs ns"
  "locate_attr tline tcol ctxa a = Some r \<Longrightarrow> with_children r (parent_children r) = ctxa a"
  "locate_attrs tline tcol ctxas as = Some r \<Longrightarrow> with_children r (parent_children r) = ctxas as"
proof (induction tline tcol ctx n and tline tcol ctxs ns and tline tcol ctxa a
    and tline tcol ctxas as rule: locate_node_locate_nodes_locate_attr_locate_attrs.induct)
qed (auto split: option.splits if_splits)

lemma modify_children_None:
  "modify_children v ks = None \<longleftrightarrow> (\<forall>k \<in> set ks. \<not> isJSXText k)"
  by (induction ks) auto

lemma modify_children_first:
  "\<forall>k \<in> set pre. \<not> isJSXText k \<Longrightarrow> isJSXText c \<Longrightarrow>
     modify_children v (pre @ c # post) = Some (pre @ JSXText v # post)"
  by (induction pre) auto

lemma fresh_count_Nil: "fresh_count [] = 0"
  by (simp add: fresh_count_def)

lemma fresh_count_Cons:
  "fresh_count (oe # oes) = (if needs_id (fst oe) (snd oe) then 1 else 0) + fresh_count oes"
  by (simp add: fresh_count_def)

lemma fresh_count_append: "fresh_count (xs @ ys) = fresh_count xs + fresh_count ys"
  by (simp add: fresh_count_def)

lemma stamp_counter:
  "snd (stamp_node rel n k) = k + fresh_count (opening_elements n)"
  "snd (stamp_nodes rel ns k) = k + fresh_count (opening_elements_list ns)"
  "snd (stamp_attr rel a k) = k + fresh_count (opening_elements_attr a)"
  "snd (stamp_attrs rel as k) = k + fresh_count (opening_elements_attrs as)"
proof (induction rel n k and rel ns k and rel a k and rel as k
    rule: stamp_node_stamp_nodes_stamp_attr_stamp_attrs.induct)
qed (auto simp: Let_def fresh_count_Nil fresh_count_Cons fresh_count_append split: prod.splits)

lemma fresh_count_zero:
  "\<forall>oe \<in> set oes. alreadyHasId (snd oe) \<Longrightarrow> fresh_count oes = 0"
  by (induction oes) (auto simp: fresh_count_Nil fresh_count_Cons needs_id_def)

lemma opening_elements_attrs_append:
  "opening_elements_attrs (xs @ ys) = opening_elements_attrs xs @ opening_elements_attrs ys"
  by (induction xs) auto

lemma opening_elements_pushed: "opening_elements_attrs (pushed_attrs rel l attrs) = []"
  by (simp add: pushed_attrs_def idAttribute_def split: option.splits)

lemma stamp_tags:
  "map tag_keys (opening_elements (fst (stamp_node rel n k)))
     = map (\<lambda>oe. tag_keys (fst oe, snd oe @ pushed_attrs rel (fst oe) (snd oe)))
         (opening_elements n)"
  "map tag_keys (opening_elements_list (fst (stamp_nodes rel ns k)))
     = map (\<lambda>oe. tag_keys (fst oe, snd oe @ pushed_attrs rel (fst oe) (snd oe)))
         (opening_elements_list ns)"
  "map tag_keys (opening_elements_attr (fst (stamp_attr rel a k)))
     = map (\<lambda>oe. tag_keys (fst oe, snd oe @ pushed_attrs rel (fst oe) (snd oe)))
         (opening_elements_attr a)
     \<and> attr_key (fst (stamp_attr rel a k)) = attr_key a"
  "map tag_keys (opening_elements_attrs (fst (stamp_attrs rel as k)))
     = map (\<lambda>oe. tag_keys (fst oe, snd oe @ pushed_attrs rel (fst oe) (snd oe)))
         (opening_elements_attrs as)
     \<and> map attr_key (fst (stamp_attrs rel as k)) = map attr_key as"
proof (induction rel n k and rel ns k and rel a k and rel as k
    rule: stamp_node_stamp_nodes_stamp_attr_stamp_attrs.induct)
qed (auto simp: Let_def tag_keys_def opening_elements_attrs_append
    opening_elements_pushed split: prod.splits)

lemma pushed_attrs_has_id: "alreadyHasId attrs \<Longrightarrow> pushed_attrs rel l attrs = []"
  by (simp add: pushed_attrs_def split: option.splits)

section \<open>Properties of the path test\<close>

lemma startsWith_iff: "startsWith s p \<longleftrightarrow> (\<exists>post. s = p @ post)"
  by (induction s p rule: startsWith.induct) auto

lemma includes_str_iff: "includes_str s sub \<longleftrightarrow> (\<exists>pre post. s = pre @ sub @ post)"
proof (induction s)
  case Nil
  show ?case by auto
next
  case (Cons c cs)
  show ?case
  proof
    assume "includes_str (c # cs) sub"
    then consider "startsWith (c # cs) sub" | "includes_str cs sub" by auto
    then show "\<exists>pre post. c # cs = pre @ sub @ post"
    proof cases
      case 1
      then obtain post where "c # cs = sub @ post" by (auto simp: startsWith_iff)
      then have "c # cs = [] @ sub @ post" by simp
      then show ?thesis by blast
    next
      case 2
      with Cons obtain pre post where "cs = pre @ sub @ post" by blast
      then have "c # cs = (c # pre) @ sub @ post" by simp
      then show ?thesis by blast
    qed
  next
    assume "\<exists>pre post. c # cs = pre @ sub @ post"
    then obtain pre post where e: "c # cs = pre @ sub @ post" by blast
    show "includes_str (c # cs) sub"
    proof (cases pre)
      case Nil
      with e have "startsWith (c # cs) sub" by (auto simp: startsWith_iff)
      then show ?thesis by simp
    next
      case (Cons d ds)
      with e have "cs = ds @ sub @ post" by simp
      with Cons.IH have "includes_str cs sub" by blast
      then show ?thesis by simp
    qed
  qed
qed

lemma split_head_prefix: "split sep s = q # qs \<Longrightarrow> \<exists>post. s = q @ post"
proof (induction s arbitrary: q qs)
  case Nil
  then show ?case by simp
next
  case (Cons c cs)
  obtain q' qs' where sp: "split sep cs = q' # qs'"
    using split_not_Nil [of sep cs] by (cases "split sep cs") auto
  from Cons.IH [OF sp] obtain post where cs: "cs = q' @ post" by blast
  show ?case
  proof (cases "c = sep")
    case True
    with Cons.prems show ?thesis by simp
  next
    case False
    with Cons.prems sp have "q = c # q'" by simp
    with cs show ?thesis by simp
  qed
qed

lemma split_segment_included:
  "seg \<in> set (split sep s) \<Longrightarrow> \<exists>pre post. s = pre @ seg @ post"
proof (induction s)
  case Nil
  then show ?case by simp
next
  case (Cons c cs)
  obtain q qs where sp: "split sep cs = q # qs"
    using split_not_Nil [of sep cs] by (cases "split sep cs") auto
  have later: "\<exists>pre post. c # cs = pre @ seg @ post" if "seg \<in> set (split sep cs)"
  proof -
    from Cons.IH [OF that] obtain pre post where "cs = pre @ seg @ post" by blast
    then have "c # cs = (c # pre) @ seg @ post" by simp
    then show ?thesis by blast
  qed
  show ?case
  proof (cases "c = sep")
    case True
    with Cons.prems have "seg = [] \<or> seg \<in> set (split sep cs)" by simp
    then show ?thesis
    proof
      assume "seg = []"
      then have "c # cs = [] @ seg @ (c # cs)" by simp
      then show ?thesis by blast
    next
      assume "seg \<in> set (split sep cs)"
      then show ?thesis by (rule later)
    qed
  next
    case False
    with Cons.prems sp have "seg = c # q \<or> seg \<in> set qs" by simp
    then show ?thesis
    proof
      assume seg: "seg = c # q"
      from split_head_prefix [OF sp] obtain post where "cs = q @ post" by blast
      with seg have "c # cs = [] @ seg @ post" by simp
      then show ?thesis by blast
    next
      assume "seg \<in> set qs"
      with sp have "seg \<in> set (split sep cs)" by simp
      then show ?thesis by (rule later)
    qed
  qed
qed

lemma segment_is_included: "seg \<in> set (split sep s) \<Longrightarrow> includes_str s seg"
  by (simp add: includes_str_iff split_segment_included)

section \<open>Properties of the stamping pass\<close>

text \<open>
  C6. When every opening element of the parsed input carries the attribute
  \<^verbatim>\<open>data-edit-id\<close>, the transform returns \<^verbatim>\<open>null\<close> and the text that goes on is the input
  itself. For every tree, stamping keeps the opening elements and their order, and the
  attribute keys of each become the old keys followed by what is pushed; for an opening
  element that carries the attribute nothing is pushed.
\<close>

theorem stamping_idempotent:
  "((\<forall>ast. parse env src = Some ast
        \<longrightarrow> (\<forall>oe \<in> set (opening_elements ast). alreadyHasId (snd oe)))
      \<longrightarrow> transform env src file_id = None \<and> stamped_content env src file_id = src)
   \<and> map tag_keys (opening_elements (fst (stamp_node rel n k)))
       = map (\<lambda>oe. tag_keys (fst oe, snd oe @ pushed_attrs rel (fst oe) (snd oe)))
           (opening_elements n)
   \<and> (alreadyHasId attrs \<longrightarrow> pushed_attrs rel l attrs = [])"
proof (intro conjI impI)
  assume all: "\<forall>ast. parse env src = Some ast
        \<longrightarrow> (\<forall>oe \<in> set (opening_elements ast). alreadyHasId (snd oe))"
  show t: "transform env src file_id = None"
  proof (cases "parse env src")
    case None
    then show ?thesis by (simp add: transform_def Let_def)
  next
    case (Some ast)
    with all have "fresh_count (opening_elements ast) = 0"
      by (simp add: fresh_count_zero)
    then have "b = 0" if "stamp_node w ast 0 = (a, b)" for w a b
      using stamp_counter(1) [of w ast 0] that by simp
    with Some show ?thesis
      by (auto simp: transform_def Let_def split: prod.splits)
  qed
  show "stamped_content env src file_id = src"
    by (simp add: stamped_content_def t)
next
  show "map tag_keys (opening_elements (fst (stamp_node rel n k)))
       = map (\<lambda>oe. tag_keys (fst oe, snd oe @ pushed_attrs rel (fst oe) (snd oe)))
           (opening_elements n)"
    by (rule stamp_tags)
next
  assume "alreadyHasId attrs"
  then show "pushed_attrs rel l attrs = []" by (rule pushed_attrs_has_id)
qed

theorem stamping_idempotent_witness:
  "transform demo_env stamped_src ''/proj/stamped.tsx'' = None
   \<and> stamped_content demo_env stamped_src ''/proj/stamped.tsx'' = stamped_src
   \<and> pushed_attrs ''a.tsx'' (at_pos 1 0) [idAttribute ''a.tsx:1:1''] = []"
proof -
  have p: "parse demo_env stamped_src = Some stamped_tree"
    by code_simp
  have ids: "\<forall>oe \<in> set (opening_elements stamped_tree). alreadyHasId (snd oe)"
    by (simp add: stamped_tree_def alreadyHasId_def idAttribute_def)
  have h: "\<forall>ast. parse demo_env stamped_src = Some ast
        \<longrightarrow> (\<forall>oe \<in> set (opening_elements ast). alreadyHasId (snd oe))"
    using p ids by simp
  have a: "alreadyHasId [idAttribute ''a.tsx:1:1'']"
    by (simp add: alreadyHasId_def idAttribute_def)
  show ?thesis
    using stamping_idempotent [where env = demo_env and src = stamped_src
        and file_id = "''/proj/stamped.tsx''" and attrs = "[idAttribute ''a.tsx:1:1'']"
        and rel = "''a.tsx''" and l = "at_pos 1 0" and n = hello_tree and k = 0] h a
    by simp
qed

section \<open>Properties of the patch handler\<close>

lemmas response_defs =
  missing_fields_def invalid_editId_def invalid_path_def target_not_found_def
  not_modified_def internal_error_def

lemma write_back_response:
  "response (write_back env st fp p content ast) \<noteq> target_not_found"
  "response (write_back env st fp p content ast) \<noteq> not_modified"
  "response (write_back env st fp p content ast) \<noteq> invalid_path"
  by (auto simp: write_back_def response_defs split: option.splits write_result.splits)

lemma apply_edit_parsed:
  assumes "body = Payload (Some eid) (Some v)" and "eid \<noteq> []"
    and "parseEditId eid = Some pid"
    and "p = resolve env (project_root env) (filePath pid)"
    and "\<not> path_refused env (filePath pid) p"
    and "readFile st p = Some content" and "parse env content = Some ast"
  shows "apply_edit env st body = patch_tree env st pid p content v ast"
  using assms by (simp add: apply_edit_def)

text \<open>
  What the path test does refuse, before any access to the storage: a decoded path with
  a segment \<open>..\<close>, a resolved path that does not begin with the characters of the root,
  and a resolved path with a segment \<open>node_modules\<close>.
\<close>

lemma refused_path_not_read:
  assumes "parseEditId eid = Some pid" and "eid \<noteq> []"
    and "''..'' \<in> set (split sep (filePath pid))
         \<or> \<not> startsWith (resolve env (project_root env) (filePath pid)) (project_root env)
         \<or> ''node_modules'' \<in> set (split sep (resolve env (project_root env) (filePath pid)))"
  shows "apply_edit env st (Payload (Some eid) (Some v))
           = \<lparr>response = invalid_path, store = st, calls = []\<rparr>"
proof -
  have "path_refused env (filePath pid) (resolve env (project_root env) (filePath pid))"
    using assms(3) segment_is_included unfolding path_refused_def by blast
  with assms(1,2) show ?thesis by (simp add: apply_edit_def)
qed

text \<open>
  C3, at a request the path test lets through. With the project root \<open>/proj\<close>, the
  identifier \<open>/proj-evil/x.tsx:1:1\<close> decodes to an absolute path that resolves to itself.
  The path is not below the root, yet it begins with the characters of the root, holds
  no \<open>..\<close> and no \<open>node_modules\<close>: the answer is not the refusal, and the first thing the
  handler does next is to read that file, whatever the storage, the parser and the
  generator are.
\<close>

theorem sibling_prefix_path_is_read:
  "\<not> descendant_of ''/proj'' (posix_resolve ''/proj'' ''/proj-evil/x.tsx'')
   \<and> response (apply_edit (env\<lparr>project_root := ''/proj'', resolve := posix_resolve\<rparr>) st
        (Payload (Some ''/proj-evil/x.tsx:1:1'') (Some v))) \<noteq> invalid_path
   \<and> take 1 (calls (apply_edit (env\<lparr>project_root := ''/proj'', resolve := posix_resolve\<rparr>) st
        (Payload (Some ''/proj-evil/x.tsx:1:1'') (Some v))))
       = [ReadFile ''/proj-evil/x.tsx'']"
proof -
  have d: "parseEditId ''/proj-evil/x.tsx:1:1''
      = Some \<lparr>filePath = ''/proj-evil/x.tsx'', line = 1, column = 1\<rparr>"
    by code_simp
  have r: "posix_resolve ''/proj'' ''/proj-evil/x.tsx'' = ''/proj-evil/x.tsx''"
    by code_simp
  have nd: "\<not> descendant_of ''/proj'' ''/proj-evil/x.tsx''"
    by code_simp
  have ok: "\<not> path_refused (env\<lparr>project_root := ''/proj'', resolve := posix_resolve\<rparr>)
      ''/proj-evil/x.tsx'' ''/proj-evil/x.tsx''"
    by (simp add: path_refused_def)
  show ?thesis
    using d r nd ok
    by (auto simp: apply_edit_def Let_def patch_tree_def write_back_def response_defs
        split: option.splits write_result.splits)
qed

text \<open>
  With the sample storage, parser and generator the same request goes through to the
  end: the file outside the root is written over.
\<close>

lemma file_outside_root_is_overwritten:
  "response (apply_edit demo_env demo_store
       (Payload (Some ''/proj-evil/x.tsx:1:1'') (Some ''Hi'')))
     = Success ''/proj-evil/x.tsx'' ''<p>Hi</p>;''
   \<and> files (store (apply_edit demo_env demo_store
         (Payload (Some ''/proj-evil/x.tsx:1:1'') (Some ''Hi'')))) ''/proj-evil/x.tsx''
       = Some ''<p>Hi</p>;''
   \<and> files demo_store ''/proj-evil/x.tsx'' = Some ''<p>Hello</p>''"
  by code_simp

text \<open>
  C4. For a request that gets as far as a parsed tree, the answer is the 404 of
  \<open>target_not_found\<close> exactly when no opening element of the tree has its line equal to
  the decoded line and its column plus one equal to the decoded column. That answer is
  different from every other failure answer, and it comes with the storage unchanged and
  with the read as the only access to it. The search is the depth-first visit ending at
  the first match: the opening element it stops at is the first one in visiting order
  that passes the test.
\<close>

theorem target_not_found_iff:
  assumes "body = Payload (Some eid) (Some v)" and "eid \<noteq> []"
    and "parseEditId eid = Some pid"
    and "p = resolve env (project_root env) (filePath pid)"
    and "\<not> path_refused env (filePath pid) p"
    and "readFile st p = Some content" and "parse env content = Some ast"
  shows "(response (apply_edit env st body) = target_not_found
           \<longleftrightarrow> (\<forall>oe \<in> set (opening_elements ast).
                  \<not> at_target (line pid) (column pid) (fst oe)))
       \<and> (response (apply_edit env st body) = target_not_found
           \<longrightarrow> store (apply_edit env st body) = st
               \<and> calls (apply_edit env st body) = [ReadFile p])
       \<and> target_not_found
           \<notin> {missing_fields, invalid_editId, invalid_path, not_modified, internal_error}
       \<and> map_option tag_of (locate_node (line pid) (column pid) (\<lambda>n. n) ast)
           = find (\<lambda>oe. at_target (line pid) (column pid) (fst oe)) (opening_elements ast)"
proof -
  have run: "apply_edit env st body = patch_tree env st pid p content v ast"
    using assms by (rule apply_edit_parsed)
  have distinct: "target_not_found
      \<notin> {missing_fields, invalid_editId, invalid_path, not_modified, internal_error}"
    by (simp add: response_defs)
  show ?thesis
  proof (cases "locate_node (line pid) (column pid) (\<lambda>n. n) ast")
    case None
    then have "\<forall>oe \<in> set (opening_elements ast). \<not> at_target (line pid) (column pid) (fst oe)"
      by (simp add: locate_None_iff)
    with None distinct show ?thesis
      unfolding run using locate_is_find(1) [of "line pid" "column pid" "\<lambda>n. n" ast]
      by (simp add: patch_tree_def)
  next
    case (Some r)
    then have ex: "\<not> (\<forall>oe \<in> set (opening_elements ast).
        \<not> at_target (line pid) (column pid) (fst oe))"
      using locate_None_iff [of "line pid" "column pid" "\<lambda>n. n" ast] by simp
    have "response (patch_tree env st pid p content v ast) \<noteq> target_not_found"
      using Some write_back_response
      by (auto simp: patch_tree_def response_defs split: option.splits)
    with ex distinct show ?thesis
      unfolding run using locate_is_find(1) [of "line pid" "column pid" "\<lambda>n. n" ast]
      by simp
  qed
qed

theorem target_not_found_iff_witness:
  "response (apply_edit demo_env demo_store (Payload (Some ''a.tsx:2:1'') (Some ''Hi'')))
     = target_not_found
   \<and> store (apply_edit demo_env demo_store (Payload (Some ''a.tsx:2:1'') (Some ''Hi'')))
     = demo_store
   \<and> locate_node 2 1 (\<lambda>n. n) hello_tree = None"
proof -
  let ?pid = "\<lparr>filePath = ''a.tsx'', line = 2, column = 1\<rparr>"
  have h2: "''a.tsx:2:1'' \<noteq> []" by simp
  have h3: "parseEditId ''a.tsx:2:1'' = Some ?pid" by code_simp
  have h4: "''/proj/a.tsx'' = resolve demo_env (project_root demo_env) (filePath ?pid)"
    by code_simp
  have h5: "\<not> path_refused demo_env (filePath ?pid) ''/proj/a.tsx''" by code_simp
  have h6: "readFile demo_store ''/proj/a.tsx'' = Some hello_src" by code_simp
  have h7: "parse demo_env hello_src = Some hello_tree" by code_simp
  have none: "\<forall>oe \<in> set (opening_elements hello_tree). \<not> at_target 2 1 (fst oe)"
    by (simp add: hello_tree_def at_target_def at_pos_def)
  note t = target_not_found_iff [OF refl h2 h3 h4 h5 h6 h7, of "''Hi''"]
  have f: "find (\<lambda>oe. at_target 2 1 (fst oe)) (opening_elements hello_tree) = None"
    using none by (simp only: find_None_iff) blast
  from t have "map_option tag_of (locate_node 2 1 (\<lambda>n. n) hello_tree) = None"
    using f by simp
  then have l: "locate_node 2 1 (\<lambda>n. n) hello_tree = None" by simp
  from t none have "response (apply_edit demo_env demo_store
      (Payload (Some ''a.tsx:2:1'') (Some ''Hi''))) = target_not_found" by simp
  with t l show ?thesis by simp
qed

text \<open>
  C5. For a request whose target is found: when no direct child of the matched element
  is a text node, the answer is the 409 of \<open>not_modified\<close>, the storage is unchanged and
  nothing is written; when there is a text child, the tree that is serialised and written
  is the parsed tree with the first text child, in the order of the children, holding
  the new value.
\<close>

theorem no_text_child_not_modified:
  assumes "body = Payload (Some eid) (Some v)" and "eid \<noteq> []"
    and "parseEditId eid = Some pid"
    and "p = resolve env (project_root env) (filePath pid)"
    and "\<not> path_refused env (filePath pid) p"
    and "readFile st p = Some content" and "parse env content = Some ast"
    and "locate_node (line pid) (column pid) (\<lambda>n. n) ast = Some path"
  shows "((\<forall>k \<in> set (parent_children path). \<not> isJSXText k)
           \<longrightarrow> apply_edit env st body
                 = \<lparr>response = not_modified, store = st, calls = [ReadFile p]\<rparr>)
       \<and> (\<forall>pre c post.
             parent_children path = pre @ c # post
             \<and> (\<forall>k \<in> set pre. \<not> isJSXText k) \<and> isJSXText c
             \<longrightarrow> apply_edit env st body
                   = write_back env st (filePath pid) p content
                       (with_children path (pre @ JSXText v # post)))"
proof -
  have run: "apply_edit env st body = patch_tree env st pid p content v ast"
    using assms(1-7) by (rule apply_edit_parsed)
  have none: "modify_children v (parent_children path) = None"
    if "\<forall>k \<in> set (parent_children path). \<not> isJSXText k"
    using that by (simp add: modify_children_None)
  show ?thesis
    unfolding run using assms(8) none
    by (auto simp: patch_tree_def modify_children_first)
qed

theorem no_text_child_not_modified_witness:
  "apply_edit demo_env demo_store (Payload (Some ''nested.tsx:1:1'') (Some ''Hi''))
     = \<lparr>response = not_modified, store = demo_store, calls = [ReadFile ''/proj/nested.tsx'']\<rparr>
   \<and> apply_edit demo_env demo_store (Payload (Some ''a.tsx:1:1'') (Some ''Hi''))
     = write_back demo_env demo_store ''a.tsx'' ''/proj/a.tsx'' hello_src
         (Other [JSXElement (at_pos 1 0) [] [JSXText ''Hi'']])"
proof -
  let ?pid = "\<lparr>filePath = ''nested.tsx'', line = 1, column = 1\<rparr>"
  let ?path = "\<lparr>path_loc = at_pos 1 0, path_attrs = [],
      parent_children = [JSXElement (at_pos 1 5) [] [JSXText ''x'']],
      with_children = (\<lambda>ks. Other [JSXElement (at_pos 1 0) [] ks])\<rparr>"
  have h2: "''nested.tsx:1:1'' \<noteq> []" by simp
  have h3: "parseEditId ''nested.tsx:1:1'' = Some ?pid" by code_simp
  have h4: "''/proj/nested.tsx'' = resolve demo_env (project_root demo_env) (filePath ?pid)"
    by code_simp
  have h5: "\<not> path_refused demo_env (filePath ?pid) ''/proj/nested.tsx''" by code_simp
  have h6: "readFile demo_store ''/proj/nested.tsx'' = Some nested_src" by code_simp
  have h7: "parse demo_env nested_src = Some nested_tree" by code_simp
  have h8: "locate_node (line ?pid) (column ?pid) (\<lambda>n. n) nested_tree = Some ?path"
    by (simp add: nested_tree_def at_target_def at_pos_def)
  have first: "apply_edit demo_env demo_store (Payload (Some ''nested.tsx:1:1'') (Some ''Hi''))
     = \<lparr>response = not_modified, store = demo_store, calls = [ReadFile ''/proj/nested.tsx'']\<rparr>"
    using no_text_child_not_modified [OF refl h2 h3 h4 h5 h6 h7 h8, of "''Hi''"] by simp
  let ?pid' = "\<lparr>filePath = ''a.tsx'', line = 1, column = 1\<rparr>"
  let ?path' = "\<lparr>path_loc = at_pos 1 0, path_attrs = [],
      parent_children = [JSXText ''Hello''],
      with_children = (\<lambda>ks. Other [JSXElement (at_pos 1 0) [] ks])\<rparr>"
  have k2: "''a.tsx:1:1'' \<noteq> []" by simp
  have k3: "parseEditId ''a.tsx:1:1'' = Some ?pid'" by code_simp
  have k4: "''/proj/a.tsx'' = resolve demo_env (project_root demo_env) (filePath ?pid')"
    by code_simp
  have k5: "\<not> path_refused demo_env (filePath ?pid') ''/proj/a.tsx''" by code_simp
  have k6: "readFile demo_store ''/proj/a.tsx'' = Some hello_src" by code_simp
  have k7: "parse demo_env hello_src = Some hello_tree" by code_simp
  have k8: "locate_node (line ?pid') (column ?pid') (\<lambda>n. n) hello_tree = Some ?path'"
    by (simp add: hello_tree_def at_target_def at_pos_def)
  have "parent_children ?path' = [] @ JSXText ''Hello'' # []
        \<and> (\<forall>k \<in> set []. \<not> isJSXText k) \<and> isJSXText (JSXText ''Hello'')"
    by simp
  with no_text_child_not_modified [OF refl k2 k3 k4 k5 k6 k7 k8, of "''Hi''"]
  have "apply_edit demo_env demo_store (Payload (Some ''a.tsx:1:1'') (Some ''Hi''))
     = write_back demo_env demo_store (filePath ?pid') ''/proj/a.tsx'' hello_src
         (with_children ?path' ([] @ JSXText ''Hi'' # []))"
    by blast
  with first show ?thesis by simp
qed

text \<open>
  C7, as the code has it. When a request fails in one of the ways that come before the
  write (a body that is not JSON, a missing field, an identifier that does not decode,
  a refused path, a file that cannot be read, a parser exception, no opening element at
  the position, no text child, a generator exception), the storage is what it was, no
  write is attempted, and the answer is the one fixed for that kind. Two kinds have the
  same answer exactly when they are the same kind or both among the four that end in
  the \<^verbatim>\<open>catch\<close> block; so a missing field, an invalid identifier, a refused path, a
  missing target and a missing text child have an answer of their own each, and the four
  others share the 500.
\<close>

theorem failed_edit_keeps_store:
  "(fails_with env st body k
      \<longrightarrow> response (apply_edit env st body) = answer_of k
          \<and> store (apply_edit env st body) = st
          \<and> (\<forall>q c. WriteFile q c \<notin> set (calls (apply_edit env st body))))
   \<and> (answer_of k1 = answer_of k2
        \<longleftrightarrow> k1 = k2 \<or> (k1 \<in> generic_kinds \<and> k2 \<in> generic_kinds))
   \<and> (k1 \<in> generic_kinds \<longrightarrow> answer_of k1 = internal_error)"
proof (intro conjI impI)
  assume f: "fails_with env st body k"
  then have "response (apply_edit env st body) = answer_of k
    \<and> store (apply_edit env st body) = st
    \<and> (\<forall>q c. WriteFile q c \<notin> set (calls (apply_edit env st body)))"
    by (induction rule: fails_with.induct)
       (auto simp: apply_edit_def patch_tree_def write_back_def split: option.splits)
  then show "response (apply_edit env st body) = answer_of k"
    and "store (apply_edit env st body) = st"
    and "\<forall>q c. WriteFile q c \<notin> set (calls (apply_edit env st body))"
    by simp_all
next
  show "answer_of k1 = answer_of k2
        \<longleftrightarrow> k1 = k2 \<or> (k1 \<in> generic_kinds \<and> k2 \<in> generic_kinds)"
    by (cases k1; cases k2) (simp_all add: generic_kinds_def response_defs)
next
  assume "k1 \<in> generic_kinds"
  then show "answer_of k1 = internal_error"
    by (auto simp: generic_kinds_def)
qed

theorem failed_edit_keeps_store_witness:
  "response (apply_edit demo_env demo_store (Payload (Some ''missing.tsx:1:1'') (Some ''Hi'')))
     = internal_error
   \<and> store (apply_edit demo_env demo_store (Payload (Some ''missing.tsx:1:1'') (Some ''Hi'')))
     = demo_store
   \<and> response (apply_edit demo_env demo_store (Payload (Some ''nested.tsx:1:1'') (Some ''Hi'')))
     = not_modified
   \<and> store (apply_edit demo_env demo_store (Payload (Some ''nested.tsx:1:1'') (Some ''Hi'')))
     = demo_store
   \<and> answer_of UnreadableFile = answer_of ParseFailure
   \<and> answer_of TargetNotFound \<noteq> answer_of NotMutable"
proof -
  let ?pid = "\<lparr>filePath = ''missing.tsx'', line = 1, column = 1\<rparr>"
  have h2: "''missing.tsx:1:1'' \<noteq> []" by simp
  have h3: "parseEditId ''missing.tsx:1:1'' = Some ?pid" by code_simp
  have h4: "''/proj/missing.tsx'' = resolve demo_env (project_root demo_env) (filePath ?pid)"
    by code_simp
  have h5: "\<not> path_refused demo_env (filePath ?pid) ''/proj/missing.tsx''" by code_simp
  have h6: "readFile demo_store ''/proj/missing.tsx'' = None" by code_simp
  have u: "fails_with demo_env demo_store (Payload (Some ''missing.tsx:1:1'') (Some ''Hi''))
      UnreadableFile"
    using h2 h3 h4 h5 h6 by (rule unreadable_file)
  let ?pid' = "\<lparr>filePath = ''nested.tsx'', line = 1, column = 1\<rparr>"
  let ?path = "\<lparr>path_loc = at_pos 1 0, path_attrs = [],
      parent_children = [JSXElement (at_pos 1 5) [] [JSXText ''x'']],
      with_children = (\<lambda>ks. Other [JSXElement (at_pos 1 0) [] ks])\<rparr>"
  have k2: "''nested.tsx:1:1'' \<noteq> []" by simp
  have k3: "parseEditId ''nested.tsx:1:1'' = Some ?pid'" by code_simp
  have k4: "''/proj/nested.tsx'' = resolve demo_env (project_root demo_env) (filePath ?pid')"
    by code_simp
  have k5: "\<not> path_refused demo_env (filePath ?pid') ''/proj/nested.tsx''" by code_simp
  have k6: "readFile demo_store ''/proj/nested.tsx'' = Some nested_src" by code_simp
  have k7: "parse demo_env nested_src = Some nested_tree" by code_simp
  have k8: "locate_node (line ?pid') (column ?pid') (\<lambda>n. n) nested_tree = Some ?path"
    by (simp add: nested_tree_def at_target_def at_pos_def)
  have k9: "modify_children ''Hi'' (parent_children ?path) = None" by simp
  have n: "fails_with demo_env demo_store (Payload (Some ''nested.tsx:1:1'') (Some ''Hi''))
      NotMutable"
    using k2 k3 k4 k5 k6 k7 k8 k9 by (rule not_mutable)
  have g: "UnreadableFile \<in> generic_kinds" "ParseFailure \<in> generic_kinds"
    "\<not> (TargetNotFound = NotMutable \<or> (TargetNotFound \<in> generic_kinds \<and> NotMutable \<in> generic_kinds))"
    by (simp_all add: generic_kinds_def)
  from failed_edit_keeps_store [of demo_env demo_store _ UnreadableFile
      UnreadableFile ParseFailure] u g
  have a: "response (apply_edit demo_env demo_store
        (Payload (Some ''missing.tsx:1:1'') (Some ''Hi''))) = internal_error"
    "store (apply_edit demo_env demo_store
        (Payload (Some ''missing.tsx:1:1'') (Some ''Hi''))) = demo_store"
    "answer_of UnreadableFile = answer_of ParseFailure"
    by auto
  from failed_edit_keeps_store [of demo_env demo_store _ NotMutable
      TargetNotFound NotMutable] n g
  have b: "response (apply_edit demo_env demo_store
        (Payload (Some ''nested.tsx:1:1'') (Some ''Hi''))) = not_modified"
    "store (apply_edit demo_env demo_store
        (Payload (Some ''nested.tsx:1:1'') (Some ''Hi''))) = demo_store"
    "answer_of TargetNotFound \<noteq> answer_of NotMutable"
    by auto
  from a b show ?thesis by blast
qed

text \<open>
  Every failure is of one of these kinds or comes from the write itself; after a failed
  write the file holds what the failed write left.
\<close>

lemma failure_kinds_complete:
  "(\<exists>fp c. response (apply_edit env st body) = Success fp c)
   \<or> (\<exists>k. fails_with env st body k)
   \<or> (\<exists>p c. calls (apply_edit env st body) = [ReadFile p, WriteFile p c]
          \<and> p \<in> unwritable st
          \<and> response (apply_edit env st body) = internal_error
          \<and> files (store (apply_edit env st body)) p = failed_write_leaves st p c)"
proof (cases body)
  case Unparsable
  then have "fails_with env st body BodyNotJSON" by (simp add: body_not_json)
  then show ?thesis by blast
next
  case (Payload e nv)
  show ?thesis
  proof (cases "e = None \<or> e = Some [] \<or> nv = None")
    case True
    then have "fails_with env st body MissingField"
      unfolding Payload by (rule missing_field)
    then show ?thesis by blast
  next
    case False
    then obtain eid v where body: "body = Payload (Some eid) (Some v)" and eid: "eid \<noteq> []"
      using Payload by auto
    show ?thesis
    proof (cases "parseEditId eid")
      case None
      with eid have "fails_with env st body InvalidIdentifier"
        unfolding body by (rule invalid_identifier)
      then show ?thesis by blast
    next
      case (Some pid)
      define p where "p = resolve env (project_root env) (filePath pid)"
      show ?thesis
      proof (cases "path_refused env (filePath pid) p")
        case True
        with eid Some p_def have "fails_with env st body AccessDenied"
          unfolding body by (rule access_denied)
        then show ?thesis by blast
      next
        case ok: False
        show ?thesis
        proof (cases "readFile st p")
          case None
          with eid Some p_def ok have "fails_with env st body UnreadableFile"
            unfolding body by (rule unreadable_file)
          then show ?thesis by blast
        next
          case rd: (Some content)
          show ?thesis
          proof (cases "parse env content")
            case None
            with eid Some p_def ok rd have "fails_with env st body ParseFailure"
              unfolding body by (rule parse_failure)
            then show ?thesis by blast
          next
            case ps: (Some ast)
            have run: "apply_edit env st body = patch_tree env st pid p content v ast"
              using body eid Some p_def ok rd ps by (rule apply_edit_parsed)
            show ?thesis
            proof (cases "locate_node (line pid) (column pid) (\<lambda>n. n) ast")
              case None
              with eid Some p_def ok rd ps have "fails_with env st body TargetNotFound"
                unfolding body by (rule target_missing)
              then show ?thesis by blast
            next
              case lc: (Some path)
              show ?thesis
              proof (cases "modify_children v (parent_children path)")
                case None
                with eid Some p_def ok rd ps lc have "fails_with env st body NotMutable"
                  unfolding body by (rule not_mutable)
                then show ?thesis by blast
              next
                case md: (Some kids)
                show ?thesis
                proof (cases "generate env None (with_children path kids) content")
                  case None
                  with eid Some p_def ok rd ps lc md
                  have "fails_with env st body SerializeFailure"
                    unfolding body by (rule serialize_failure)
                  then show ?thesis by blast
                next
                  case gn: (Some out)
                  show ?thesis
                  proof (cases "p \<in> unwritable st")
                    case True
                    with lc md gn have
                      "calls (apply_edit env st body) = [ReadFile p, WriteFile p (code out)]
                       \<and> p \<in> unwritable st
                       \<and> response (apply_edit env st body) = internal_error
                       \<and> files (store (apply_edit env st body)) p
                           = failed_write_leaves st p (code out)"
                      unfolding run by (simp add: patch_tree_def write_back_def writeFile_def)
                    then show ?thesis by blast
                  next
                    case False
                    with lc md gn have
                      "response (apply_edit env st body) = Success (filePath pid) (code out)"
                      unfolding run by (simp add: patch_tree_def write_back_def writeFile_def)
                    then show ?thesis by blast
                  qed
                qed
              qed
            qed
          qed
        qed
      qed
    qed
  qed
qed

lemma failed_write_changes_file:
  "response (apply_edit demo_env demo_store (Payload (Some ''layout.tsx:1:1'') (Some ''Hi'')))
     = internal_error
   \<and> files demo_store ''/proj/layout.tsx'' = Some layout_src
   \<and> files (store (apply_edit demo_env demo_store
         (Payload (Some ''layout.tsx:1:1'') (Some ''Hi'')))) ''/proj/layout.tsx'' = Some []"
  by code_simp

text \<open>
  C7 as it is stated, that the answer tells which kind of failure occurred, fails for
  the file that cannot be read: it gets the very answer a parser exception and a body
  that is not JSON get.
\<close>

theorem unreadable_file_reported_as_internal_error:
  "readFile demo_store ''/proj/missing.tsx'' = None
   \<and> response (apply_edit demo_env demo_store (Payload (Some ''missing.tsx:1:1'') (Some ''Hi'')))
       = Failure 500 ''Internal server error during edit application.''
   \<and> readFile demo_store ''/proj/broken.tsx'' = Some ''<p>''
   \<and> parse demo_env ''<p>'' = None
   \<and> response (apply_edit demo_env demo_store (Payload (Some ''broken.tsx:1:1'') (Some ''Hi'')))
       = Failure 500 ''Internal server error during edit application.''
   \<and> response (apply_edit demo_env demo_store Unparsable)
       = Failure 500 ''Internal server error during edit application.''"
  by code_simp

text \<open>
  C9. A request whose new value is the empty string is not answered as a missing field.
  When its target is found and has a text child, and serialising and writing go through,
  the handler answers 200 and writes the text of the tree in which the first text child
  is still there, in its place among the children, with the empty string as its value.
\<close>

theorem empty_newValue_succeeds:
  assumes "body = Payload (Some eid) (Some [])" and "eid \<noteq> []"
    and "parseEditId eid = Some pid"
    and "p = resolve env (project_root env) (filePath pid)"
    and "\<not> path_refused env (filePath pid) p"
    and "readFile st p = Some content" and "parse env content = Some ast"
    and "locate_node (line pid) (column pid) (\<lambda>n. n) ast = Some path"
    and "parent_children path = pre @ c # post"
    and "\<forall>k \<in> set pre. \<not> isJSXText k" and "isJSXText c"
    and "generate env None (with_children path (pre @ JSXText [] # post)) content = Some out"
    and "p \<notin> unwritable st"
  shows "response (apply_edit env st body) = Success (filePath pid) (code out)
       \<and> response (apply_edit env st body) \<noteq> missing_fields
       \<and> modify_children [] (parent_children path) = Some (pre @ JSXText [] # post)
       \<and> files (store (apply_edit env st body)) p = Some (code out)
       \<and> calls (apply_edit env st body) = [ReadFile p, WriteFile p (code out)]"
proof -
  have run: "apply_edit env st body = patch_tree env st pid p content [] ast"
    using assms(1-7) by (rule apply_edit_parsed)
  have m: "modify_children [] (parent_children path) = Some (pre @ JSXText [] # post)"
    using assms(9-11) by (simp add: modify_children_first)
  show ?thesis
    unfolding run using assms(8,12,13) m
    by (simp add: patch_tree_def write_back_def writeFile_def response_defs)
qed

theorem empty_newValue_succeeds_witness:
  "response (apply_edit demo_env demo_store (Payload (Some ''a.tsx:1:1'') (Some '''')))
     = Success ''a.tsx'' ''<p></p>;''
   \<and> modify_children [] [JSXText ''Hello''] = Some [JSXText []]
   \<and> files (store (apply_edit demo_env demo_store (Payload (Some ''a.tsx:1:1'') (Some ''''))))
        ''/proj/a.tsx'' = Some ''<p></p>;''"
proof -
  let ?pid = "\<lparr>filePath = ''a.tsx'', line = 1, column = 1\<rparr>"
  let ?path = "\<lparr>path_loc = at_pos 1 0, path_attrs = [],
      parent_children = [JSXText ''Hello''],
      with_children = (\<lambda>ks. Other [JSXElement (at_pos 1 0) [] ks])\<rparr>"
  let ?out = "\<lparr>code = ''<p></p>;'', smap = None\<rparr>"
  have h2: "''a.tsx:1:1'' \<noteq> []" by simp
  have h3: "parseEditId ''a.tsx:1:1'' = Some ?pid" by code_simp
  have h4: "''/proj/a.tsx'' = resolve demo_env (project_root demo_env) (filePath ?pid)"
    by code_simp
  have h5: "\<not> path_refused demo_env (filePath ?pid) ''/proj/a.tsx''" by code_simp
  have h6: "readFile demo_store ''/proj/a.tsx'' = Some hello_src" by code_simp
  have h7: "parse demo_env hello_src = Some hello_tree" by code_simp
  have h8: "locate_node (line ?pid) (column ?pid) (\<lambda>n. n) hello_tree = Some ?path"
    by (simp add: hello_tree_def at_target_def at_pos_def)
  have h9: "parent_children ?path = [] @ JSXText ''Hello'' # []" by simp
  have h10: "\<forall>k \<in> set []. \<not> isJSXText k" by simp
  have h11: "isJSXText (JSXText ''Hello'')" by simp
  have h12: "generate demo_env None (with_children ?path ([] @ JSXText [] # [])) hello_src
      = Some ?out"
    by (simp add: demo_env_def demo_generate_def)
  have h13: "''/proj/a.tsx'' \<notin> unwritable demo_store" by (simp add: demo_store_def)
  from empty_newValue_succeeds [OF refl h2 h3 h4 h5 h6 h7 h8 h9 h10 h11 h12 h13]
  show ?thesis by simp
qed



end
